theory Spec2Isabelle
  imports Main
begin

section \<open>Python values and exceptions\<close>

text \<open>
  The client works on the parsed JSON bodies of the remote API (\<open>response.json()\<close>), which
  are plain Python values: \<open>None\<close>, booleans, numbers, strings, lists and dicts. A dict is
  kept as an association list read with \<open>map_of\<close>. Numbers are restricted to integers; no
  function below inspects a number beyond its truth value.
\<close>

datatype json =
    JNull
  | JBool bool
  | JNum int
  | JStr string
  | JArr "json list"
  | JObj "(string \<times> json) list"

text \<open>
  Exceptions of class \<open>Exception\<close>. \<open>HTTPStatusError\<close> carries the status code and the
  response text, \<open>SpeechlabMcpError\<close> the text handed to \<open>make_error\<close>.
  \<open>Wrapped p e\<close> is the \<open>SpeechlabMcpError\<close> whose text is the prefix \<open>p\<close>
  followed by \<open>str(e)\<close>.
\<close>

datatype pyexn =
    HTTPStatusError nat string
  | RequestError
  | AttributeError
  | TypeError
  | KeyError string
  | ValueError string
  | OverflowError
  | RuntimeError string
  | ValidationError
  | OSError
  | SpeechlabMcpError string
  | Wrapped string pyexn

text \<open>\<open>d.get(key, default)\<close>: only a dict has the method.\<close>

fun py_get :: "json \<Rightarrow> string \<Rightarrow> json \<Rightarrow> pyexn + json" where
  "py_get (JObj kvs) k dflt = Inr (case map_of kvs k of Some v \<Rightarrow> v | None \<Rightarrow> dflt)"
| "py_get _ k dflt = Inl AttributeError"

text \<open>Truth value of a Python object, as \<open>if x:\<close> and \<open>not x\<close> test it.\<close>

fun truthy :: "json \<Rightarrow> bool" where
  "truthy JNull = False"
| "truthy (JBool b) = b"
| "truthy (JNum n) = (n \<noteq> 0)"
| "truthy (JStr s) = (s \<noteq> [])"
| "truthy (JArr xs) = (xs \<noteq> [])"
| "truthy (JObj kvs) = (kvs \<noteq> [])"

section \<open>The completion poller: \<open>SpeechlabClient.wait_for_completion\<close>\<close>

text \<open>
  The remote side is the sequence of results of the calls of \<open>get_project_status\<close>: the
  \<open>a\<close>-th call either raises or returns a payload. Every attempt of the loop makes exactly
  one call, as its first statement, so the call made by attempt \<open>a\<close> is call \<open>a\<close>.
  The observer callback either returns or raises; it is given the attempt index and the
  payload. Logging is left out: the logger calls only format values that are already there.
\<close>

type_synonym remote_status = "nat \<Rightarrow> pyexn + json"

type_synonym callback = "nat \<Rightarrow> json \<Rightarrow> pyexn option"

datatype event =
    EvFetch nat
  | EvCallback nat json
  | EvSleep int

datatype outcome =
    Returned bool
  | Raised pyexn
  | Fallthrough

text \<open>\<open>status = project_data.get("job", {}).get("status", "UNKNOWN")\<close>\<close>

definition derive_status :: "json \<Rightarrow> pyexn + json" where
  "derive_status project_data =
     (case py_get project_data ''job'' (JObj []) of
        Inl e \<Rightarrow> Inl e
      | Inr job \<Rightarrow> py_get job ''status'' (JStr ''UNKNOWN''))"

text \<open>
  \<open>time.sleep(secs)\<close> for an \<open>int\<close>, the declared type of \<open>delay_seconds\<close>. CPython first
  turns the length into a signed 64-bit count of nanoseconds and raises \<open>OverflowError\<close>
  when it does not fit, that is outside \<open>-9223372036 .. 9223372036\<close>; it then raises
  \<open>ValueError\<close> on a negative length. A length that passes both tests goes to the
  sleep call of the platform, which either returns after the delay or refuses a deadline
  beyond the range of its clock (\<open>OSError\<close>; Linux does so for the lengths just below
  \<open>9223372036\<close>). \<open>limit\<close> is the longest length the platform accepts at the time of
  the call; it belongs to the platform, not to the program. All three exceptions are of
  class \<open>Exception\<close>.
\<close>

definition time_sleep :: "int \<Rightarrow> int \<Rightarrow> pyexn option" where
  "time_sleep limit secs =
     (if secs < - 9223372036 \<or> 9223372036 < secs then Some OverflowError
      else if secs < 0 then Some (ValueError ''sleep length must be non-negative'')
      else if limit < secs then Some OSError
      else None)"

text \<open>
  The platform over a run of the poller: \<open>sleep_limit a\<close> is the longest length its sleep
  call accepts at the time attempt \<open>a\<close> calls \<open>time.sleep\<close>. An attempt whose first
  call is refused calls again at once, from the handler, and is refused again.
\<close>

type_synonym sleep_limit = "nat \<Rightarrow> int"

text \<open>
  \<open>if attempt < max_attempts - 1: time.sleep(delay_seconds)\<close>, which stands at the end of
  the \<open>try\<close> block and again in the handler.
\<close>

definition sleep_between ::
  "sleep_limit \<Rightarrow> int \<Rightarrow> int \<Rightarrow> nat \<Rightarrow> event list \<Rightarrow> outcome \<times> event list" where
  "sleep_between sleep_limit max_attempts delay_seconds attempt evs =
     (if int attempt < max_attempts - 1
      then (case time_sleep (sleep_limit attempt) delay_seconds of
              Some e \<Rightarrow> (Raised e, evs)
            | None \<Rightarrow> (Fallthrough, evs @ [EvSleep delay_seconds]))
      else (Fallthrough, evs))"

text \<open>\<open>if callback: callback(attempt, project_data)\<close>\<close>

definition call_callback :: "callback option \<Rightarrow> nat \<Rightarrow> json \<Rightarrow> pyexn option \<times> event list" where
  "call_callback callback attempt project_data =
     (case callback of
        None \<Rightarrow> (None, [])
      | Some f \<Rightarrow> (f attempt project_data, [EvCallback attempt project_data]))"

text \<open>The body of the \<open>try\<close> block of one attempt.\<close>

definition attempt_try ::
  "sleep_limit \<Rightarrow> remote_status \<Rightarrow> callback option \<Rightarrow> int \<Rightarrow> int \<Rightarrow> nat \<Rightarrow> outcome \<times> event list" where
  "attempt_try sleep_limit remote callback max_attempts delay_seconds attempt =
     (case remote attempt of
        Inl e \<Rightarrow> (Raised e, [EvFetch attempt])
      | Inr project_data \<Rightarrow>
          (case derive_status project_data of
             Inl e \<Rightarrow> (Raised e, [EvFetch attempt])
           | Inr status \<Rightarrow>
               (case call_callback callback attempt project_data of
                  (Some e, cevs) \<Rightarrow> (Raised e, EvFetch attempt # cevs)
                | (None, cevs) \<Rightarrow>
                    if status = JStr ''COMPLETE'' then (Returned True, EvFetch attempt # cevs)
                    else if status = JStr ''FAILED'' then (Returned False, EvFetch attempt # cevs)
                    else sleep_between sleep_limit max_attempts delay_seconds attempt
                           (EvFetch attempt # cevs))))"

text \<open>
  One pass of the loop body: the \<open>try\<close> block, and the \<open>except Exception\<close> handler
  for whatever it raised, be it the fetch, the derivation of the status, the observer or
  the \<open>time.sleep\<close> of the \<open>try\<close> block. An exception of the handler's own
  \<open>time.sleep\<close> leaves the function.
\<close>

definition attempt_body ::
  "sleep_limit \<Rightarrow> remote_status \<Rightarrow> callback option \<Rightarrow> int \<Rightarrow> int \<Rightarrow> nat \<Rightarrow> outcome \<times> event list" where
  "attempt_body sleep_limit remote callback max_attempts delay_seconds attempt =
     (case attempt_try sleep_limit remote callback max_attempts delay_seconds attempt of
        (Raised e, evs) \<Rightarrow> sleep_between sleep_limit max_attempts delay_seconds attempt evs
      | r \<Rightarrow> r)"

text \<open>
  \<open>for attempt in range(max_attempts)\<close> over the attempts still to run; after the loop
  the function returns \<open>False\<close>.
\<close>

fun poll_attempts ::
  "sleep_limit \<Rightarrow> remote_status \<Rightarrow> callback option \<Rightarrow> int \<Rightarrow> int \<Rightarrow> nat list
     \<Rightarrow> (pyexn + bool) \<times> event list" where
  "poll_attempts sleep_limit remote callback max_attempts delay_seconds [] = (Inr False, [])"
| "poll_attempts sleep_limit remote callback max_attempts delay_seconds (attempt # rest) =
     (case attempt_body sleep_limit remote callback max_attempts delay_seconds attempt of
        (Returned b, evs) \<Rightarrow> (Inr b, evs)
      | (Raised e, evs) \<Rightarrow> (Inl e, evs)
      | (Fallthrough, evs) \<Rightarrow>
          (case poll_attempts sleep_limit remote callback max_attempts delay_seconds rest of
             (res, evs') \<Rightarrow> (res, evs @ evs')))"

text \<open>
  \<open>wait_for_completion(project_id, max_attempts, delay_seconds, callback)\<close> on the
  given platform; \<open>remote\<close> stands for the project behind \<open>project_id\<close>.
\<close>

definition wait_for_completion ::
  "sleep_limit \<Rightarrow> remote_status \<Rightarrow> callback option \<Rightarrow> int \<Rightarrow> int \<Rightarrow> (pyexn + bool) \<times> event list" where
  "wait_for_completion sleep_limit remote callback max_attempts delay_seconds =
     poll_attempts sleep_limit remote callback max_attempts delay_seconds [0..<nat max_attempts]"








subsection \<open>Scripted remotes and observers for concrete runs\<close>

definition status_payload :: "string \<Rightarrow> json" where
  "status_payload s = JObj [(''job'', JObj [(''status'', JStr s)])]"

definition scripted :: "(pyexn + json) list \<Rightarrow> remote_status" where
  "scripted rs a = (if a < length rs then rs ! a else Inl RequestError)"

definition raising_callback :: callback where
  "raising_callback a pd = Some (ValueError ''observer failed'')"


section \<open>Paths, the file system and the environment: \<open>utils.py\<close>\<close>

text \<open>
  A \<open>pathlib.Path\<close> on a POSIX system, as pathlib keeps it: its root (empty for a relative
  path, else \<open>/\<close> or \<open>//\<close>) and its components. \<open>mk_path\<close> is the constructor
  \<open>Path(s)\<close>: a string that starts with exactly two slashes has the root \<open>//\<close>, one that
  starts with any other number of slashes the root \<open>/\<close>; the rest is split at \<open>/\<close>, and
  empty components and \<open>.\<close> are dropped, while \<open>..\<close> stays. A character is a code
  point below 256.
\<close>

datatype path = Path string "string list"

fun split_on :: "char \<Rightarrow> string \<Rightarrow> string list" where
  "split_on c [] = [[]]"
| "split_on c (x # xs) =
     (if x = c then [] # split_on c xs
      else (case split_on c xs of p # ps \<Rightarrow> (x # p) # ps | [] \<Rightarrow> [[x]]))"

definition path_root :: "string \<Rightarrow> string" where
  "path_root s =
     (let n = length (takeWhile (\<lambda>c. c = CHR ''/'') s) in
      if n = 0 then [] else if n = 2 then ''//'' else ''/'')"

definition mk_path :: "string \<Rightarrow> path" where
  "mk_path s = Path (path_root s) (filter (\<lambda>p. p \<noteq> [] \<and> p \<noteq> ''.'') (split_on CHR ''/'' s))"

text \<open>\<open>os.path.isabs\<close>: the string starts with a slash.\<close>

definition isabs :: "string \<Rightarrow> bool" where
  "isabs s = (case s of [] \<Rightarrow> False | c # cs \<Rightarrow> c = CHR ''/'')"

text \<open>The operator \<open>/\<close>, and the properties \<open>parent\<close>, \<open>name\<close> and \<open>suffix\<close>.\<close>

fun path_join :: "path \<Rightarrow> path \<Rightarrow> path" where
  "path_join (Path r ps) (Path r' qs) = (if r' \<noteq> [] then Path r' qs else Path r (ps @ qs))"

fun path_parent :: "path \<Rightarrow> path" where
  "path_parent (Path r ps) = Path r (butlast ps)"

fun path_name :: "path \<Rightarrow> string" where
  "path_name (Path r ps) = (if ps = [] then [] else last ps)"

text \<open>\<open>str.rfind\<close> for a single character.\<close>

fun rfind :: "char \<Rightarrow> string \<Rightarrow> nat option" where
  "rfind c [] = None"
| "rfind c (x # xs) =
     (case rfind c xs of
        Some i \<Rightarrow> Some (Suc i)
      | None \<Rightarrow> if x = c then Some 0 else None)"

text \<open>
  \<open>PurePath.suffix\<close> (CPython 3.11): with \<open>i = name.rfind('.')\<close>, the text \<open>name[i:]\<close>
  when \<open>0 < i < len(name) - 1\<close>, and the empty string otherwise.
\<close>

definition path_suffix :: "path \<Rightarrow> string" where
  "path_suffix p =
     (let name = path_name p in
      case rfind CHR ''.'' name of
        None \<Rightarrow> []
      | Some i \<Rightarrow> if 0 < i \<and> int i < int (length name) - 1 then drop i name else [])"

fun join_slash :: "string list \<Rightarrow> string" where
  "join_slash [] = []"
| "join_slash [p] = p"
| "join_slash (p # q # ps) = p @ ''/'' @ join_slash (q # ps)"

text \<open>\<open>str(path)\<close>, as the error messages print it.\<close>

fun str_path :: "path \<Rightarrow> string" where
  "str_path (Path r ps) = (if r = [] \<and> ps = [] then ''.'' else r @ join_slash ps)"

text \<open>
  \<open>str.lower\<close> on code points below 256: the letters \<open>A\<close> to \<open>Z\<close> and the capital
  letters of Latin-1 (192 to 222 but for the multiplication sign 215) move up by 32.
\<close>

definition lower_char :: "char \<Rightarrow> char" where
  "lower_char c =
     (let n = (of_char c :: nat) in
      if (65 \<le> n \<and> n \<le> 90) \<or> (192 \<le> n \<and> n \<le> 222 \<and> n \<noteq> 215)
      then char_of (n + 32) else c)"

definition py_lower :: "string \<Rightarrow> string" where
  "py_lower s = map lower_char s"

text \<open>
  What \<open>os.stat\<close> finds at a path. \<open>Missing\<close> stands for the failures that \<open>Path.exists\<close>
  and \<open>Path.is_file\<close> take as the answer no (\<open>ENOENT\<close>, \<open>ENOTDIR\<close>, \<open>EBADF\<close>,
  \<open>ELOOP\<close>); \<open>StatFails e\<close> for any other failure (a file name too long, a directory
  that may not be searched), which both methods raise again.
\<close>

datatype stat_result =
    Missing
  | Regular
  | NotRegular
  | StatFails pyexn

text \<open>
  The operating system as the functions of \<open>utils.py\<close> see it: what \<open>os.stat\<close> finds,
  which of the paths it finds the process may write to, the process environment, the home
  directory (if it can be determined), \<open>os.path.expanduser\<close>, and what
  \<open>Path.mkdir(parents=True, exist_ok=True)\<close> raises, if anything.
\<close>

record os_env =
  fs_stat :: "path \<Rightarrow> stat_result"
  fs_perm_w :: "path \<Rightarrow> bool"
  environ :: "string \<Rightarrow> string option"
  home :: "path option"
  expanduser :: "string \<Rightarrow> string"
  mkdir_raises :: "path \<Rightarrow> pyexn option"

text \<open>
  A path with a NUL character in it cannot be handed to the operating system: \<open>os.stat\<close>
  and \<open>os.access\<close> raise \<open>ValueError\<close>. \<open>Path.exists\<close> and \<open>Path.is_file\<close> catch it
  and answer \<open>False\<close>; \<open>os.access\<close> does not.
\<close>

fun has_nul :: "path \<Rightarrow> bool" where
  "has_nul (Path r ps) = (CHR 0x00 \<in> set (concat ps))"

definition path_exists :: "os_env \<Rightarrow> path \<Rightarrow> pyexn + bool" where
  "path_exists env p =
     (if has_nul p then Inr False
      else (case fs_stat env p of
              Missing \<Rightarrow> Inr False
            | StatFails e \<Rightarrow> Inl e
            | _ \<Rightarrow> Inr True))"

definition path_is_file :: "os_env \<Rightarrow> path \<Rightarrow> pyexn + bool" where
  "path_is_file env p =
     (if has_nul p then Inr False
      else (case fs_stat env p of
              Regular \<Rightarrow> Inr True
            | StatFails e \<Rightarrow> Inl e
            | _ \<Rightarrow> Inr False))"

text \<open>
  \<open>os.access(path, os.W_OK)\<close>: \<open>True\<close> when the path is found and the process may write
  to it; \<open>False\<close> whenever the system call fails, as it does on a path that does not
  exist.
\<close>

definition os_access_w :: "os_env \<Rightarrow> path \<Rightarrow> pyexn + bool" where
  "os_access_w env p =
     (if has_nul p then Inl (ValueError ''embedded null byte'')
      else Inr ((fs_stat env p = Regular \<or> fs_stat env p = NotRegular) \<and> fs_perm_w env p))"

definition is_file_writeable :: "os_env \<Rightarrow> path \<Rightarrow> pyexn + bool" where
  "is_file_writeable env p =
     (case path_exists env p of
        Inl e \<Rightarrow> Inl e
      | Inr True \<Rightarrow> os_access_w env p
      | Inr False \<Rightarrow> os_access_w env (path_parent p))"

text \<open>
  \<open>make_output_file\<close>. \<open>stamp\<close> is the text of
  \<open>datetime.now().strftime('%Y%m%d_%H%M%S')\<close>; \<open>text[:5]\<close> is \<open>take 5\<close>, and
  \<open>replace(' ', '_')\<close> acts on every character.
\<close>

definition replace_spaces :: "string \<Rightarrow> string" where
  "replace_spaces s = map (\<lambda>c. if c = CHR '' '' then CHR ''_'' else c) s"



text \<open>
  \<open>make_output_path\<close>: first the path it settles on, then the function. \<open>Path.home()\<close>
  raises \<open>RuntimeError\<close> when the home directory cannot be determined. The only action on
  the file system is the \<open>mkdir\<close> at the end.
\<close>

datatype fs_action = Mkdir path

definition resolve_output_path ::
  "os_env \<Rightarrow> string option \<Rightarrow> string option \<Rightarrow> pyexn + path" where
  "resolve_output_path env output_directory base_path =
     (case output_directory of
        None \<Rightarrow>
          (case home env of
             None \<Rightarrow> Inl (RuntimeError ''Could not determine home directory.'')
           | Some h \<Rightarrow> Inr (path_join h (mk_path ''Desktop'')))
      | Some d \<Rightarrow>
          (case base_path of
             Some b \<Rightarrow>
               if \<not> isabs d \<and> b \<noteq> []
               then Inr (path_join (mk_path (expanduser env b)) (mk_path d))
               else Inr (mk_path (expanduser env d))
           | None \<Rightarrow> Inr (mk_path (expanduser env d))))"

definition make_output_path ::
  "os_env \<Rightarrow> string option \<Rightarrow> string option \<Rightarrow> (pyexn + path) \<times> fs_action list" where
  "make_output_path env output_directory base_path =
     (case resolve_output_path env output_directory base_path of
        Inl e \<Rightarrow> (Inl e, [])
      | Inr output_path \<Rightarrow>
          (case is_file_writeable env output_path of
             Inl e \<Rightarrow> (Inl e, [])
           | Inr False \<Rightarrow>
               (Inl (SpeechlabMcpError
                      (''Directory ('' @ str_path output_path @ '') is not writeable'')), [])
           | Inr True \<Rightarrow>
               (case mkdir_raises env output_path of
                  Some e \<Rightarrow> (Inl e, [Mkdir output_path])
                | None \<Rightarrow> (Inr output_path, [Mkdir output_path]))))"

text \<open>\<open>check_media_file\<close> and \<open>handle_input_file\<close>.\<close>

definition media_extensions :: "string list" where
  "media_extensions =
     [''.mp3'', ''.wav'', ''.m4a'', ''.aac'', ''.ogg'', ''.flac'',
      ''.mp4'', ''.mov'', ''.avi'', ''.mkv'', ''.webm'']"

definition check_media_file :: "path \<Rightarrow> bool" where
  "check_media_file p = (py_lower (path_suffix p) \<in> set media_extensions)"

text \<open>\<open>os.environ.get("SPEECHLAB_MCP_BASE_PATH")\<close> as a condition: set and not empty.\<close>

definition base_path_set :: "os_env \<Rightarrow> bool" where
  "base_path_set env =
     (case environ env ''SPEECHLAB_MCP_BASE_PATH'' of None \<Rightarrow> False | Some v \<Rightarrow> v \<noteq> [])"

definition handle_input_file :: "os_env \<Rightarrow> string \<Rightarrow> bool \<Rightarrow> pyexn + path" where
  "handle_input_file env file_path audio_content_check =
     (if \<not> isabs file_path \<and> \<not> base_path_set env
      then Inl (SpeechlabMcpError
                 ''File path must be an absolute path if SPEECHLAB_MCP_BASE_PATH is not set'')
      else
        (let p = mk_path file_path in
         case path_exists env p of
           Inl e \<Rightarrow> Inl e
         | Inr False \<Rightarrow> Inl (SpeechlabMcpError (''File ('' @ str_path p @ '') does not exist''))
         | Inr True \<Rightarrow>
             (case path_is_file env p of
                Inl e \<Rightarrow> Inl e
              | Inr False \<Rightarrow>
                  Inl (SpeechlabMcpError (''Path ('' @ str_path p @ '') is not a file''))
              | Inr True \<Rightarrow>
                  if audio_content_check \<and> \<not> check_media_file p
                  then Inl (SpeechlabMcpError
                             (''File ('' @ str_path p @ '') is not a recognized media file''))
                  else Inr p)))"


subsection \<open>Concrete environments\<close>

text \<open>
  Every path is a regular file that may be written to; no environment variable is set.
\<close>

definition all_files_env :: os_env where
  "all_files_env =
     \<lparr>fs_stat = (\<lambda>p. Regular), fs_perm_w = (\<lambda>p. True),
      environ = (\<lambda>k. None), home = Some (Path ''/'' [''home'', ''user'']),
      expanduser = (\<lambda>s. s), mkdir_raises = (\<lambda>p. None)\<rparr>"

text \<open>Only the directory \<open>/data\<close> is there; it may be written to.\<close>

definition data_env :: os_env where
  "data_env =
     \<lparr>fs_stat = (\<lambda>p. if p = Path ''/'' [''data''] then NotRegular else Missing),
      fs_perm_w = (\<lambda>p. True),
      environ = (\<lambda>k. None), home = Some (Path ''/'' [''home'', ''user'']),
      expanduser = (\<lambda>s. s), mkdir_raises = (\<lambda>p. None)\<rparr>"

text \<open>
  As \<open>data_env\<close>, but on every other path \<open>os.stat\<close> fails with an error that is not
  taken as absence, as it does on a name that is too long.
\<close>

definition long_name_env :: os_env where
  "long_name_env =
     \<lparr>fs_stat = (\<lambda>p. if p = Path ''/'' [''data''] then NotRegular else StatFails OSError),
      fs_perm_w = (\<lambda>p. True),
      environ = (\<lambda>k. None), home = Some (Path ''/'' [''home'', ''user'']),
      expanduser = (\<lambda>s. s), mkdir_raises = (\<lambda>p. None)\<rparr>"

section \<open>More of Python on JSON values\<close>

text \<open>Sequencing of two steps, the second of which runs only if the first did not raise.\<close>

definition bind_exn :: "pyexn + 'a \<Rightarrow> ('a \<Rightarrow> pyexn + 'b) \<Rightarrow> pyexn + 'b" where
  "bind_exn r f = (case r of Inl e \<Rightarrow> Inl e | Inr x \<Rightarrow> f x)"

text \<open>
  \<open>for x in v\<close>: a list gives its elements, a dict its keys, a string its characters;
  nothing else can be iterated.
\<close>

fun py_iter :: "json \<Rightarrow> pyexn + json list" where
  "py_iter (JArr xs) = Inr xs"
| "py_iter (JObj kvs) = Inr (map (\<lambda>kv. JStr (fst kv)) kvs)"
| "py_iter (JStr s) = Inr (map (\<lambda>c. JStr [c]) s)"
| "py_iter _ = Inl TypeError"

text \<open>\<open>v[key]\<close> with a string key: a dict looks the key up, anything else rejects it.\<close>

fun py_subscript :: "json \<Rightarrow> string \<Rightarrow> pyexn + json" where
  "py_subscript (JObj kvs) k =
     (case map_of kvs k of Some v \<Rightarrow> Inr v | None \<Rightarrow> Inl (KeyError k))"
| "py_subscript _ k = Inl TypeError"

fun is_substring :: "string \<Rightarrow> string \<Rightarrow> bool" where
  "is_substring p [] = (p = [])"
| "is_substring p (c # cs) = (take (length p) (c # cs) = p \<or> is_substring p cs)"

text \<open>
  \<open>key in v\<close> with a string key: a key of a dict, an element of a list, a part of a
  string.
\<close>

fun py_contains :: "json \<Rightarrow> string \<Rightarrow> pyexn + bool" where
  "py_contains (JObj kvs) k = Inr (map_of kvs k \<noteq> None)"
| "py_contains (JArr xs) k = Inr (JStr k \<in> set xs)"
| "py_contains (JStr s) k = Inr (is_substring k s)"
| "py_contains _ k = Inl TypeError"

text \<open>The decimal text of a number, as an f-string prints a status code.\<close>

function show_nat :: "nat \<Rightarrow> string" where
  "show_nat n =
     (if n < 10 then [char_of (48 + n)]
      else show_nat (n div 10) @ [char_of (48 + n mod 10)])"
  by pat_completeness auto
termination
  by (relation "measure id") auto

text \<open>
  The two handlers that close every tool of the server. An \<open>HTTPStatusError\<close> becomes
  the error text \<open>HTTP error occurred: <code> - <text>\<close>; any other exception \<open>e\<close>
  becomes the prefix of the tool followed by \<open>str(e)\<close>, which for a
  \<open>SpeechlabMcpError\<close> and a \<open>ValueError\<close> is the text they were raised with.
\<close>

fun server_handlers :: "string \<Rightarrow> pyexn \<Rightarrow> pyexn" where
  "server_handlers prefix (HTTPStatusError code body) =
     SpeechlabMcpError (''HTTP error occurred: '' @ show_nat code @ '' - '' @ body)"
| "server_handlers prefix (SpeechlabMcpError m) = SpeechlabMcpError (prefix @ m)"
| "server_handlers prefix (ValueError m) = SpeechlabMcpError (prefix @ m)"
| "server_handlers prefix e = Wrapped prefix e"

text \<open>The requests and file accesses of the functions below, in the order they are made.\<close>

datatype action =
    PostCreateProject json
  | OpenFile path
  | PostUpload json path
  | GetProject string
  | GetDownloadUrl string
  | HttpGet json

section \<open>Creating a project: \<open>SpeechlabClient.create_project\<close> and \<open>create_project_and_dub\<close>\<close>

text \<open>
  The remote create call (the \<open>post\<close>, \<open>raise_for_status\<close> and \<open>json\<close> together)
  answers a request body with a parsed response or raises; likewise the upload call, given
  the project id put into its URL and the file. \<open>open_file\<close> is what \<open>open(path, "rb")\<close>
  raises, if anything.
\<close>

record create_remote =
  create_api :: "json \<Rightarrow> pyexn + json"
  open_file :: "path \<Rightarrow> pyexn option"
  upload_api :: "json \<Rightarrow> path \<Rightarrow> pyexn + json"

text \<open>
  The request body built in \<open>SpeechlabClient.create_project\<close>. \<open>stamp\<close> is the text of
  \<open>datetime.now().strftime('%Y%m%d%H%M%S')\<close>.
\<close>

definition client_create_body :: "string \<Rightarrow> string \<Rightarrow> string \<Rightarrow> string \<Rightarrow> json" where
  "client_create_body name source_language target_language stamp =
     (let api_target_language = (if target_language = ''es'' then ''es_la'' else target_language) in
      JObj [(''name'', JStr name),
            (''sourceLanguage'', JStr source_language),
            (''targetLanguage'', JStr api_target_language),
            (''dubAccent'', JStr api_target_language),
            (''voiceMatchingMode'', JStr ''source''),
            (''unitType'', JStr ''whiteGlove''),
            (''thirdPartyID'', JStr (''client_'' @ stamp))])"

text \<open>
  \<open>create_project\<close> returns the parsed response as it is; its handler logs an
  \<open>HTTPStatusError\<close> and raises it again.
\<close>

definition create_project ::
  "create_remote \<Rightarrow> string \<Rightarrow> string \<Rightarrow> string \<Rightarrow> string \<Rightarrow> (pyexn + json) \<times> action list" where
  "create_project remote name source_language target_language stamp =
     (let body = client_create_body name source_language target_language stamp in
      (create_api remote body, [PostCreateProject body]))"

text \<open>The request body built in the tool \<open>create_project_and_dub\<close> of the server.\<close>

definition server_create_body :: "string \<Rightarrow> string \<Rightarrow> string \<Rightarrow> string \<Rightarrow> json" where
  "server_create_body name source_language target_language stamp =
     (let api_target_language = (if target_language = ''es'' then ''es_la'' else target_language) in
      JObj [(''name'', JStr name),
            (''sourceLanguage'', JStr source_language),
            (''targetLanguage'', JStr api_target_language),
            (''dubAccent'', JStr api_target_language),
            (''voiceMatchingMode'', JStr ''source''),
            (''unitType'', JStr ''whiteGlove''),
            (''thirdPartyID'', JStr (''mcp_'' @ stamp))])"

text \<open>The model class \<open>McpDubProject\<close>.\<close>

record mcp_dub_project =
  project_id :: string
  project_name :: string
  project_status :: string
  created_at :: string
  updated_at :: string
  source_language :: string
  target_language :: string
  source_file :: "string option"
  metadata :: json

text \<open>
  The validation of the model class (pydantic 2, which the \<open>mcp\<close> package requires): a
  field declared \<open>str\<close> takes a string and nothing else that JSON holds, the field
  \<open>metadata\<close> a dict or \<open>None\<close>.
\<close>

fun as_str :: "json \<Rightarrow> pyexn + string" where
  "as_str (JStr s) = Inr s"
| "as_str _ = Inl ValidationError"

fun as_metadata :: "json \<Rightarrow> pyexn + json" where
  "as_metadata (JObj kvs) = Inr (JObj kvs)"
| "as_metadata JNull = Inr JNull"
| "as_metadata _ = Inl ValidationError"

text \<open>
  \<open>McpDubProject(id=project_data["id"], ...)\<close>: the arguments are evaluated in the order
  written, then the constructor validates them. \<open>now\<close> is the text of
  \<open>datetime.now().isoformat()\<close>.
\<close>

definition build_dub_project :: "json \<Rightarrow> string option \<Rightarrow> string \<Rightarrow> pyexn + mcp_dub_project" where
  "build_dub_project project_data source_file_arg now =
     bind_exn (py_subscript project_data ''id'') (\<lambda>v_id.
     bind_exn (py_subscript project_data ''name'') (\<lambda>v_name.
     bind_exn (py_get project_data ''status'' (JStr ''created'')) (\<lambda>v_status.
     bind_exn (py_get project_data ''createdAt'' (JStr now)) (\<lambda>v_created.
     bind_exn (py_get project_data ''updatedAt'' (JStr now)) (\<lambda>v_updated.
     bind_exn (py_subscript project_data ''sourceLanguage'') (\<lambda>v_source.
     bind_exn (py_subscript project_data ''targetLanguage'') (\<lambda>v_target.
     bind_exn (py_get project_data ''metadata'' (JObj [])) (\<lambda>v_meta.
     bind_exn (as_str v_id) (\<lambda>s_id.
     bind_exn (as_str v_name) (\<lambda>s_name.
     bind_exn (as_str v_status) (\<lambda>s_status.
     bind_exn (as_str v_created) (\<lambda>s_created.
     bind_exn (as_str v_updated) (\<lambda>s_updated.
     bind_exn (as_str v_source) (\<lambda>s_source.
     bind_exn (as_str v_target) (\<lambda>s_target.
     bind_exn (as_metadata v_meta) (\<lambda>m.
       Inr \<lparr>project_id = s_id, project_name = s_name, project_status = s_status,
            created_at = s_created, updated_at = s_updated,
            source_language = s_source, target_language = s_target,
            source_file = source_file_arg, metadata = m\<rparr>))))))))))))))))"

text \<open>The text of the \<open>TextContent\<close> that the tool returns.\<close>

definition created_text :: "mcp_dub_project \<Rightarrow> string" where
  "created_text p =
     ''Project created successfully:'' @ [CHR 0x0A] @
     ''ID: '' @ project_id p @ [CHR 0x0A] @
     ''Name: '' @ project_name p @ [CHR 0x0A] @
     ''Source Language: '' @ source_language p @ [CHR 0x0A] @
     ''Target Language: '' @ target_language p @ [CHR 0x0A] @
     ''Status: '' @ project_status p"

text \<open>
  The upload step of the tool, taken when \<open>source_file\<close> is a non-empty string: the file
  is validated, the project id is read for the log line, the file is opened and posted.
\<close>

definition upload_source_file ::
  "os_env \<Rightarrow> create_remote \<Rightarrow> json \<Rightarrow> string \<Rightarrow> (pyexn + unit) \<times> action list" where
  "upload_source_file env remote project_data source_file_arg =
     (case handle_input_file env source_file_arg True of
        Inl e \<Rightarrow> (Inl e, [])
      | Inr file_path \<Rightarrow>
          (case py_subscript project_data ''id'' of
             Inl e \<Rightarrow> (Inl e, [])
           | Inr pid \<Rightarrow>
               (case open_file remote file_path of
                  Some e \<Rightarrow> (Inl e, [OpenFile file_path])
                | None \<Rightarrow>
                    (case upload_api remote pid file_path of
                       Inl e \<Rightarrow> (Inl e, [OpenFile file_path, PostUpload pid file_path])
                     | Inr upload_data \<Rightarrow>
                         (Inr (), [OpenFile file_path, PostUpload pid file_path])))))"

text \<open>\<open>source_file if source_file else None\<close>\<close>

definition given_source_file :: "string option \<Rightarrow> string option" where
  "given_source_file source_file_arg =
     (case source_file_arg of None \<Rightarrow> None | Some f \<Rightarrow> if f = [] then None else Some f)"

text \<open>The body of the \<open>try\<close> block of the tool; its result is the text it returns.\<close>

definition create_project_and_dub_try ::
  "os_env \<Rightarrow> create_remote \<Rightarrow> string \<Rightarrow> string \<Rightarrow> string \<Rightarrow> string option \<Rightarrow> string \<Rightarrow> string
     \<Rightarrow> (pyexn + string) \<times> action list" where
  "create_project_and_dub_try env remote name source_language_arg target_language_arg
       source_file_arg stamp now =
     (let body = server_create_body name source_language_arg target_language_arg stamp in
      case create_api remote body of
        Inl e \<Rightarrow> (Inl e, [PostCreateProject body])
      | Inr project_data \<Rightarrow>
          (case (case given_source_file source_file_arg of
                   None \<Rightarrow> (Inr (), [])
                 | Some f \<Rightarrow> upload_source_file env remote project_data f) of
             (Inl e, acts) \<Rightarrow> (Inl e, PostCreateProject body # acts)
           | (Inr u, acts) \<Rightarrow>
               (case build_dub_project project_data (given_source_file source_file_arg) now of
                  Inl e \<Rightarrow> (Inl e, PostCreateProject body # acts)
                | Inr project \<Rightarrow> (Inr (created_text project), PostCreateProject body # acts))))"

definition create_project_and_dub ::
  "os_env \<Rightarrow> create_remote \<Rightarrow> string \<Rightarrow> string \<Rightarrow> string \<Rightarrow> string option \<Rightarrow> string \<Rightarrow> string
     \<Rightarrow> (pyexn + string) \<times> action list" where
  "create_project_and_dub env remote name source_language_arg target_language_arg
       source_file_arg stamp now =
     (case create_project_and_dub_try env remote name source_language_arg target_language_arg
             source_file_arg stamp now of
        (Inl e, acts) \<Rightarrow> (Inl (server_handlers ''Error creating project: '' e), acts)
      | (Inr txt, acts) \<Rightarrow> (Inr txt, acts))"

text \<open>What a run sent to the create endpoint, and the two language fields of a body.\<close>

fun create_bodies :: "action list \<Rightarrow> json list" where
  "create_bodies [] = []"
| "create_bodies (PostCreateProject b # acts) = b # create_bodies acts"
| "create_bodies (a # acts) = create_bodies acts"

definition language_fields :: "json \<Rightarrow> (pyexn + json) \<times> (pyexn + json)" where
  "language_fields body = (py_subscript body ''targetLanguage'', py_subscript body ''dubAccent'')"

subsection \<open>A remote that answers a create request with the fields it was sent\<close>

definition echo_create :: "json \<Rightarrow> pyexn + json" where
  "echo_create body =
     bind_exn (py_subscript body ''name'') (\<lambda>n.
     bind_exn (py_subscript body ''sourceLanguage'') (\<lambda>s.
     bind_exn (py_subscript body ''targetLanguage'') (\<lambda>t.
       Inr (JObj [(''id'', JStr ''p1''), (''name'', n),
                  (''sourceLanguage'', s), (''targetLanguage'', t)]))))"

definition echo_remote :: create_remote where
  "echo_remote =
     \<lparr>create_api = echo_create, open_file = (\<lambda>p. None),
      upload_api = (\<lambda>pid f. Inr (JObj []))\<rparr>"

section \<open>Finding the download URL: \<open>download_result\<close> and \<open>download_dubbing_result\<close>\<close>

text \<open>
  The innermost loop, \<open>for media in medias\<close>: the first media whose \<open>operationType\<close> is
  \<open>"OUTPUT"\<close> and whose \<open>presignedURL\<close> is truthy ends the search.
\<close>

fun search_medias :: "json list \<Rightarrow> pyexn + json option" where
  "search_medias [] = Inr None"
| "search_medias (media # rest) =
     bind_exn (py_get media ''operationType'' JNull) (\<lambda>op.
       if op = JStr ''OUTPUT''
       then bind_exn (py_get media ''presignedURL'' JNull) (\<lambda>url.
              if truthy url then Inr (Some url) else search_medias rest)
       else search_medias rest)"

text \<open>The loop \<open>for dub in dubs\<close>, the same in both functions.\<close>

fun search_dubs :: "json list \<Rightarrow> pyexn + json option" where
  "search_dubs [] = Inr None"
| "search_dubs (dub # rest) =
     bind_exn (py_get dub ''medias'' (JArr [])) (\<lambda>medias.
     bind_exn (py_iter medias) (\<lambda>ms.
     bind_exn (search_medias ms) (\<lambda>found.
       case found of Some url \<Rightarrow> Inr (Some url) | None \<Rightarrow> search_dubs rest)))"

text \<open>The loop \<open>for translation in translations\<close> of the client.\<close>

fun client_search_translations :: "json list \<Rightarrow> pyexn + json option" where
  "client_search_translations [] = Inr None"
| "client_search_translations (translation # rest) =
     bind_exn (py_get translation ''dub'' (JArr [])) (\<lambda>dubs.
     bind_exn (py_iter dubs) (\<lambda>ds.
     bind_exn (search_dubs ds) (\<lambda>found.
       case found of Some url \<Rightarrow> Inr (Some url) | None \<Rightarrow> client_search_translations rest)))"

text \<open>The same loop in the server tool, which skips a translation whose \<open>dub\<close> is falsy.\<close>

fun server_search_translations :: "json list \<Rightarrow> pyexn + json option" where
  "server_search_translations [] = Inr None"
| "server_search_translations (translation # rest) =
     bind_exn (py_get translation ''dub'' (JArr [])) (\<lambda>dubs.
       if \<not> truthy dubs then server_search_translations rest
       else
         bind_exn (py_iter dubs) (\<lambda>ds.
         bind_exn (search_dubs ds) (\<lambda>found.
           case found of
             Some url \<Rightarrow> Inr (Some url)
           | None \<Rightarrow> server_search_translations rest)))"

text \<open>
  The remote side of a download: the expanded project payload, the answer of the
  download-URL endpoint, and the download itself, which raises or not.
\<close>

record download_remote =
  get_project :: "string \<Rightarrow> pyexn + json"
  get_download_url :: "string \<Rightarrow> pyexn + json"
  http_get :: "json \<Rightarrow> pyexn option"

text \<open>
  The fallback of the client: the download-URL endpoint is asked, and a response without
  \<open>"url"\<close> raises \<open>ValueError\<close>.
\<close>

definition no_url_text :: string where
  "no_url_text = ''No download URL available. The dubbing may not be complete.''"

definition client_fallback ::
  "download_remote \<Rightarrow> string \<Rightarrow> (pyexn + json) \<times> action list" where
  "client_fallback remote pid =
     (bind_exn (get_download_url remote pid) (\<lambda>url_data.
      bind_exn (py_contains url_data ''url'') (\<lambda>present.
        if \<not> present then Inl (ValueError no_url_text)
        else py_subscript url_data ''url'')),
      [GetDownloadUrl pid])"

text \<open>The same in the server tool, where \<open>make_error\<close> raises \<open>SpeechlabMcpError\<close>.\<close>

definition server_fallback ::
  "download_remote \<Rightarrow> string \<Rightarrow> (pyexn + json) \<times> action list" where
  "server_fallback remote pid =
     (bind_exn (get_download_url remote pid) (\<lambda>url_data.
      bind_exn (py_contains url_data ''url'') (\<lambda>present.
        if \<not> present then Inl (SpeechlabMcpError no_url_text)
        else py_subscript url_data ''url'')),
      [GetDownloadUrl pid])"

text \<open>The download request that follows once a URL is at hand.\<close>

definition download_from :: "download_remote \<Rightarrow> json \<Rightarrow> (pyexn + json) \<times> action list" where
  "download_from remote url =
     (case http_get remote url of
        Some e \<Rightarrow> (Inl e, [HttpGet url])
      | None \<Rightarrow> (Inr url, [HttpGet url]))"

text \<open>
  \<open>SpeechlabClient.download_result\<close> from its start to the download request
  (\<open>httpx.get\<close> and \<open>raise_for_status\<close>); the result is the URL the file was fetched
  from. The function goes on to save the file; that part plays no role in how the URL is
  found and is left out. The handler logs an \<open>HTTPStatusError\<close> and raises it again.
\<close>

definition download_result_fetch ::
  "download_remote \<Rightarrow> string \<Rightarrow> (pyexn + json) \<times> action list" where
  "download_result_fetch remote pid =
     (case get_project remote pid of
        Inl e \<Rightarrow> (Inl e, [GetProject pid])
      | Inr project_data \<Rightarrow>
          (case bind_exn (py_get project_data ''translations'' (JArr [])) (\<lambda>translations.
                bind_exn (py_iter translations) client_search_translations) of
             Inl e \<Rightarrow> (Inl e, [GetProject pid])
           | Inr (Some url) \<Rightarrow>
               (case download_from remote url of (r, acts) \<Rightarrow> (r, GetProject pid # acts))
           | Inr None \<Rightarrow>
               (case client_fallback remote pid of
                  (Inl e, acts) \<Rightarrow> (Inl e, GetProject pid # acts)
                | (Inr url, acts) \<Rightarrow>
                    (case download_from remote url of
                       (r, acts') \<Rightarrow> (r, GetProject pid # acts @ acts')))))"

text \<open>
  The \<open>try\<close> block of the server tool \<open>download_dubbing_result\<close>, to the same point. An
  empty or missing \<open>translations\<close> raises at once.
\<close>

definition download_dubbing_result_try ::
  "download_remote \<Rightarrow> string \<Rightarrow> (pyexn + json) \<times> action list" where
  "download_dubbing_result_try remote pid =
     (case get_project remote pid of
        Inl e \<Rightarrow> (Inl e, [GetProject pid])
      | Inr project_data \<Rightarrow>
          (case bind_exn (py_get project_data ''translations'' (JArr [])) (\<lambda>translations.
                if \<not> truthy translations
                then Inl (SpeechlabMcpError ''No translations found in the project.'')
                else bind_exn (py_iter translations) server_search_translations) of
             Inl e \<Rightarrow> (Inl e, [GetProject pid])
           | Inr (Some url) \<Rightarrow>
               (case download_from remote url of (r, acts) \<Rightarrow> (r, GetProject pid # acts))
           | Inr None \<Rightarrow>
               (case server_fallback remote pid of
                  (Inl e, acts) \<Rightarrow> (Inl e, GetProject pid # acts)
                | (Inr url, acts) \<Rightarrow>
                    (case download_from remote url of
                       (r, acts') \<Rightarrow> (r, GetProject pid # acts @ acts')))))"

text \<open>The tool with its handlers.\<close>

definition download_dubbing_result_fetch ::
  "download_remote \<Rightarrow> string \<Rightarrow> (pyexn + json) \<times> action list" where
  "download_dubbing_result_fetch remote pid =
     (case download_dubbing_result_try remote pid of
        (Inl e, acts) \<Rightarrow> (Inl (server_handlers ''Error downloading dubbing result: '' e), acts)
      | (Inr url, acts) \<Rightarrow> (Inr url, acts))"

subsection \<open>The walk as the specification words it\<close>

text \<open>
  For comparison with the loops above. A payload is well formed when it is a dict and its
  \<open>translations\<close>, the \<open>dub\<close> of each translation and the \<open>medias\<close> of each dub are,
  where present, lists of dicts. On such a payload the URL is that of the first media, in
  document order, whose operation type is \<open>OUTPUT\<close> and whose presigned URL is truthy.
\<close>

fun is_dict :: "json \<Rightarrow> bool" where
  "is_dict (JObj kvs) = True"
| "is_dict _ = False"

definition list_field :: "json \<Rightarrow> string \<Rightarrow> json list" where
  "list_field obj k =
     (case obj of
        JObj kvs \<Rightarrow> (case map_of kvs k of Some (JArr xs) \<Rightarrow> xs | _ \<Rightarrow> [])
      | _ \<Rightarrow> [])"

definition wf_list_field :: "json \<Rightarrow> string \<Rightarrow> bool" where
  "wf_list_field obj k =
     (case obj of
        JObj kvs \<Rightarrow>
          (case map_of kvs k of
             None \<Rightarrow> True
           | Some (JArr xs) \<Rightarrow> list_all is_dict xs
           | Some _ \<Rightarrow> False)
      | _ \<Rightarrow> False)"

definition wf_payload :: "json \<Rightarrow> bool" where
  "wf_payload project_data =
     (wf_list_field project_data ''translations''
      \<and> list_all (\<lambda>t. wf_list_field t ''dub''
                       \<and> list_all (\<lambda>d. wf_list_field d ''medias'') (list_field t ''dub''))
           (list_field project_data ''translations''))"

definition presigned_url :: "json \<Rightarrow> json" where
  "presigned_url media =
     (case media of
        JObj kvs \<Rightarrow> (case map_of kvs ''presignedURL'' of Some u \<Rightarrow> u | None \<Rightarrow> JNull)
      | _ \<Rightarrow> JNull)"

definition is_output_media :: "json \<Rightarrow> bool" where
  "is_output_media media =
     (case media of
        JObj kvs \<Rightarrow> map_of kvs ''operationType'' = Some (JStr ''OUTPUT'')
                    \<and> truthy (presigned_url media)
      | _ \<Rightarrow> False)"

definition all_medias :: "json \<Rightarrow> json list" where
  "all_medias project_data =
     concat (map (\<lambda>d. list_field d ''medias'')
               (concat (map (\<lambda>t. list_field t ''dub'')
                          (list_field project_data ''translations''))))"

definition first_output_url :: "json \<Rightarrow> json option" where
  "first_output_url project_data =
     map_option presigned_url (find is_output_media (all_medias project_data))"

text \<open>The outcome of the download request for a URL, and a result with its errors wrapped.\<close>

definition fetched :: "download_remote \<Rightarrow> json \<Rightarrow> pyexn + json" where
  "fetched remote url = (case http_get remote url of Some e \<Rightarrow> Inl e | None \<Rightarrow> Inr url)"

definition wrap_errors :: "string \<Rightarrow> pyexn + json \<Rightarrow> pyexn + json" where
  "wrap_errors prefix r = (case r of Inl e \<Rightarrow> Inl (server_handlers prefix e) | Inr v \<Rightarrow> Inr v)"

subsection \<open>Concrete payloads and remotes\<close>

definition output_media :: "string \<Rightarrow> json" where
  "output_media url = JObj [(''operationType'', JStr ''OUTPUT''), (''presignedURL'', JStr url)]"

text \<open>Two translations; only the dub of the second holds an output media with a URL.\<close>

definition two_translations :: json where
  "two_translations =
     JObj [(''translations'',
            JArr [JObj [(''language'', JStr ''es''),
                        (''dub'', JArr [JObj [(''medias'',
                                   JArr [JObj [(''operationType'', JStr ''INPUT''),
                                               (''presignedURL'', JStr ''https://in'')]])]])],
                  JObj [(''language'', JStr ''fr''),
                        (''dub'', JArr [JObj [(''medias'',
                                   JArr [output_media ''https://out''])]])]])]"

definition remote_two_translations :: download_remote where
  "remote_two_translations =
     \<lparr>get_project = (\<lambda>pid. Inr two_translations),
      get_download_url = (\<lambda>pid. Inr (JObj [])),
      http_get = (\<lambda>url. None)\<rparr>"

text \<open>
  A project without translations whose download-URL endpoint does hold a URL; one whose
  only translation has a \<open>dub\<close> that is \<open>null\<close>; one with nothing to find whose
  endpoint holds no URL either; and one with nothing to find whose endpoint answers with a
  \<open>"url"\<close> that is \<open>null\<close>, which \<open>httpx.get\<close> rejects with \<open>TypeError\<close>.
\<close>

definition remote_no_translations :: download_remote where
  "remote_no_translations =
     \<lparr>get_project = (\<lambda>pid. Inr (JObj [(''translations'', JArr [])])),
      get_download_url = (\<lambda>pid. Inr (JObj [(''url'', JStr ''https://fallback'')])),
      http_get = (\<lambda>url. None)\<rparr>"

definition remote_null_dub :: download_remote where
  "remote_null_dub =
     \<lparr>get_project = (\<lambda>pid. Inr (JObj [(''translations'', JArr [JObj [(''dub'', JNull)]])])),
      get_download_url = (\<lambda>pid. Inr (JObj [(''url'', JStr ''https://fallback'')])),
      http_get = (\<lambda>url. None)\<rparr>"

definition remote_nothing :: download_remote where
  "remote_nothing =
     \<lparr>get_project = (\<lambda>pid. Inr (JObj [(''translations'', JArr [JObj []])])),
      get_download_url = (\<lambda>pid. Inr (JObj [])),
      http_get = (\<lambda>url. None)\<rparr>"

definition remote_null_url :: download_remote where
  "remote_null_url =
     \<lparr>get_project = (\<lambda>pid. Inr (JObj [(''translations'', JArr [JObj []])])),
      get_download_url = (\<lambda>pid. Inr (JObj [(''url'', JNull)])),
      http_get = (\<lambda>url. case url of JStr u \<Rightarrow> None | _ \<Rightarrow> Some TypeError)\<rparr>"


section \<open>Properties of the completion poller\<close>







text \<open>The lengths \<open>time.sleep\<close> returns on.\<close>

lemma time_sleep_returns_iff:
  "time_sleep L D = None \<longleftrightarrow> 0 \<le> D \<and> D \<le> 9223372036 \<and> D \<le> L"
  by (auto simp: time_sleep_def)





























text \<open>
  Claim C4 fails on the code. The observer is called inside the \<open>try\<close> block, before the
  status is tested, so an observer that raises sends the attempt to the handler and the
  test for \<open>COMPLETE\<close> never runs: with a budget of one attempt, a fetched status
  \<open>COMPLETE\<close> and a raising observer, the function returns \<open>False\<close>. No sleep takes
  place in this run, so it is the same on every platform.
\<close>

theorem raising_callback_masks_complete:
  "wait_for_completion sleep_limit (scripted [Inr (status_payload ''COMPLETE'')])
     (Some raising_callback) 1 0
     = (Inr False, [EvFetch 0, EvCallback 0 (status_payload ''COMPLETE'')])"
  by code_simp




section \<open>Properties of the file utilities\<close>



lemma replace_spaces_no_space: "CHR '' '' \<notin> set (replace_spaces s)"
  by (auto simp: replace_spaces_def)


lemma path_exists_False_iff:
  "path_exists env p = Inr False \<longleftrightarrow> has_nul p \<or> fs_stat env p = Missing"
  by (simp add: path_exists_def split: stat_result.splits)

lemma path_exists_True_iff:
  "path_exists env p = Inr True
     \<longleftrightarrow> \<not> has_nul p \<and> (fs_stat env p = Regular \<or> fs_stat env p = NotRegular)"
  by (simp add: path_exists_def split: stat_result.splits)

lemma path_is_file_True_iff:
  "path_is_file env p = Inr True \<longleftrightarrow> \<not> has_nul p \<and> fs_stat env p = Regular"
  by (simp add: path_is_file_def split: stat_result.splits)









text \<open>
  Claim C10, as the code has it. Let the output path that \<open>make_output_path\<close> settles on
  not exist. If its parent does not exist either, and the parent's path holds no NUL
  character, the function raises the error \<open>Directory (...) is not writeable\<close> and
  \<open>mkdir\<close> is never called. And whenever \<open>mkdir\<close> is called on the path, its parent
  exists and \<open>os.access\<close> has found it writable. \<open>mkdir\<close> is called on no other path.
\<close>

theorem make_output_path_needs_existing_parent:
  assumes "resolve_output_path env output_directory base_path = Inr p"
    and "path_exists env p = Inr False"
  shows "(path_exists env (path_parent p) = Inr False \<and> \<not> has_nul (path_parent p)
            \<longrightarrow> make_output_path env output_directory base_path
                  = (Inl (SpeechlabMcpError
                           (''Directory ('' @ str_path p @ '') is not writeable'')), []))
       \<and> (Mkdir p \<in> set (snd (make_output_path env output_directory base_path))
            \<longrightarrow> path_exists env (path_parent p) = Inr True
                \<and> os_access_w env (path_parent p) = Inr True)
       \<and> set (snd (make_output_path env output_directory base_path)) \<subseteq> {Mkdir p}"
proof -
  have w: "is_file_writeable env p = os_access_w env (path_parent p)"
    using assms(2) by (simp add: is_file_writeable_def)
  have a: "make_output_path env output_directory base_path
             = (Inl (SpeechlabMcpError
                      (''Directory ('' @ str_path p @ '') is not writeable'')), [])"
    if "path_exists env (path_parent p) = Inr False" and "\<not> has_nul (path_parent p)"
  proof -
    from that have "fs_stat env (path_parent p) = Missing"
      by (simp add: path_exists_False_iff)
    with that(2) have "os_access_w env (path_parent p) = Inr False"
      by (simp add: os_access_w_def)
    with w assms(1) show ?thesis by (simp add: make_output_path_def)
  qed
  have b: "path_exists env (path_parent p) = Inr True
           \<and> os_access_w env (path_parent p) = Inr True"
    if m: "Mkdir p \<in> set (snd (make_output_path env output_directory base_path))"
  proof -
    from m w assms(1) have acc: "os_access_w env (path_parent p) = Inr True"
      by (auto simp: make_output_path_def split: sum.splits bool.splits option.splits)
    then have "\<not> has_nul (path_parent p)
               \<and> (fs_stat env (path_parent p) = Regular
                  \<or> fs_stat env (path_parent p) = NotRegular)"
      by (auto simp: os_access_w_def split: if_splits)
    then have "path_exists env (path_parent p) = Inr True"
      by (simp add: path_exists_True_iff)
    with acc show ?thesis by simp
  qed
  have c: "set (snd (make_output_path env output_directory base_path)) \<subseteq> {Mkdir p}"
    using assms(1)
    by (auto simp: make_output_path_def split: sum.splits bool.splits option.splits)
  from a b c show ?thesis by blast
qed

theorem make_output_path_needs_existing_parent_witness:
  "make_output_path data_env (Some ''/data/out/run1'') None
     = (Inl (SpeechlabMcpError ''Directory (/data/out/run1) is not writeable''), [])
   \<and> make_output_path data_env (Some ''/data/out'') None
     = (Inr (mk_path ''/data/out''), [Mkdir (mk_path ''/data/out'')])
   \<and> path_exists data_env (path_parent (mk_path ''/data/out'')) = Inr True"
proof -
  have r1: "resolve_output_path data_env (Some ''/data/out/run1'') None
              = Inr (mk_path ''/data/out/run1'')"
    by (simp add: resolve_output_path_def data_env_def)
  have e1: "path_exists data_env (mk_path ''/data/out/run1'') = Inr False" by code_simp
  have p1: "path_exists data_env (path_parent (mk_path ''/data/out/run1'')) = Inr False"
    by code_simp
  have n1: "\<not> has_nul (path_parent (mk_path ''/data/out/run1''))" by code_simp
  have s1: "str_path (mk_path ''/data/out/run1'') = ''/data/out/run1''" by code_simp
  from make_output_path_needs_existing_parent [OF r1 e1] p1 n1
  have one: "make_output_path data_env (Some ''/data/out/run1'') None
     = (Inl (SpeechlabMcpError
              (''Directory ('' @ str_path (mk_path ''/data/out/run1'') @ '') is not writeable'')),
        [])"
    by blast
  have r2: "resolve_output_path data_env (Some ''/data/out'') None = Inr (mk_path ''/data/out'')"
    by (simp add: resolve_output_path_def data_env_def)
  have e2: "path_exists data_env (mk_path ''/data/out'') = Inr False" by code_simp
  have run2: "make_output_path data_env (Some ''/data/out'') None
     = (Inr (mk_path ''/data/out''), [Mkdir (mk_path ''/data/out'')])"
    by code_simp
  then have m2: "Mkdir (mk_path ''/data/out'')
                   \<in> set (snd (make_output_path data_env (Some ''/data/out'') None))"
    by simp
  from make_output_path_needs_existing_parent [OF r2 e2] m2
  have two: "path_exists data_env (path_parent (mk_path ''/data/out'')) = Inr True"
    by blast
  from one two run2 show ?thesis by (simp add: s1)
qed

text \<open>
  Claim C10 as stated, for every output directory that does not exist under a parent that
  does not exist, fails on two kinds of path. When the parent's path holds a NUL
  character, \<open>os.access\<close> raises \<open>ValueError\<close> and no error about writability is made.
  When \<open>os.stat\<close> fails on the path for another reason than its absence, such as a name
  that is too long, \<open>Path.exists\<close> raises that \<open>OSError\<close>.
\<close>

theorem make_output_path_other_errors_counterexample:
  "path_exists data_env (mk_path [CHR ''/'', CHR ''a'', CHR 0x00, CHR ''/'', CHR ''b'']) = Inr False
   \<and> path_exists data_env (path_parent (mk_path [CHR ''/'', CHR ''a'', CHR 0x00, CHR ''/'', CHR ''b'']))
     = Inr False
   \<and> make_output_path data_env (Some [CHR ''/'', CHR ''a'', CHR 0x00, CHR ''/'', CHR ''b'']) None
     = (Inl (ValueError ''embedded null byte''), [])
   \<and> make_output_path long_name_env (Some ''/out/run1'') None = (Inl OSError, [])"
  by code_simp

section \<open>Properties of project creation\<close>

lemma language_fields_client:
  "language_fields (client_create_body name src ''es'' stamp)
     = (Inr (JStr ''es_la''), Inr (JStr ''es_la''))"
  by (simp add: language_fields_def client_create_body_def Let_def)

lemma language_fields_server:
  "language_fields (server_create_body name src ''es'' stamp)
     = (Inr (JStr ''es_la''), Inr (JStr ''es_la''))"
  by (simp add: language_fields_def server_create_body_def Let_def)

lemma create_bodies_upload: "create_bodies (snd (upload_source_file env remote pd f)) = []"
  by (auto simp: upload_source_file_def split: sum.splits option.splits)

text \<open>Every run of the tool sends exactly one create request, with the body built for it.\<close>

lemma create_project_and_dub_bodies:
  "create_bodies (snd (create_project_and_dub env remote name src tgt sf stamp now))
     = [server_create_body name src tgt stamp]"
proof -
  have up: "create_bodies acts = []"
    if "(case given_source_file sf of
           None \<Rightarrow> (Inr (), [])
         | Some f \<Rightarrow> upload_source_file env remote pd f) = (r, acts)" for pd r acts
  proof (cases "given_source_file sf")
    case None
    with that show ?thesis by simp
  next
    case (Some f)
    with that have "upload_source_file env remote pd f = (r, acts)" by simp
    with create_bodies_upload [of env remote pd f] show ?thesis by simp
  qed
  show ?thesis
    by (auto simp: create_project_and_dub_def create_project_and_dub_try_def Let_def
        split: sum.splits prod.splits dest: up)
qed

lemma as_str_Inr: "as_str v = Inr s \<longleftrightarrow> v = JStr s"
  by (cases v) auto

lemma build_dub_project_target:
  "build_dub_project pd sf now = Inr project \<Longrightarrow>
   py_subscript pd ''targetLanguage'' = Inr (JStr (target_language project))"
  by (auto simp: build_dub_project_def bind_exn_def as_str_Inr split: sum.splits)

lemma create_project_and_dub_text:
  assumes "fst (create_project_and_dub env remote name src tgt sf stamp now) = Inr msg"
  shows "\<exists>pd project.
           create_api remote (server_create_body name src tgt stamp) = Inr pd
         \<and> build_dub_project pd (given_source_file sf) now = Inr project
         \<and> msg = created_text project"
  using assms
  by (auto simp: create_project_and_dub_def create_project_and_dub_try_def Let_def
      split: sum.splits prod.splits)

text \<open>
  Claim C5, as the code has it. For the target language \<open>es\<close>, the body that
  \<open>create_project\<close> posts and the body that \<open>create_project_and_dub\<close> posts both hold
  \<open>es_la\<close> under \<open>targetLanguage\<close> and under \<open>dubAccent\<close>; each function sends exactly one
  create request, with that body. What goes back to the caller is the answer of the
  remote: \<open>create_project\<close> returns the parsed response as it is, and the text that
  \<open>create_project_and_dub\<close> returns names the \<open>targetLanguage\<close> of the response.
\<close>

theorem create_request_carries_es_la:
  "language_fields (client_create_body name source_lang ''es'' stamp)
     = (Inr (JStr ''es_la''), Inr (JStr ''es_la''))
   \<and> language_fields (server_create_body name source_lang ''es'' stamp)
     = (Inr (JStr ''es_la''), Inr (JStr ''es_la''))
   \<and> create_project remote name source_lang ''es'' stamp
     = (create_api remote (client_create_body name source_lang ''es'' stamp),
        [PostCreateProject (client_create_body name source_lang ''es'' stamp)])
   \<and> create_bodies (snd (create_project_and_dub env remote name source_lang ''es''
                            source_file_arg stamp now))
     = [server_create_body name source_lang ''es'' stamp]
   \<and> (\<forall>msg. fst (create_project_and_dub env remote name source_lang ''es''
                     source_file_arg stamp now) = Inr msg \<longrightarrow>
        (\<exists>project_data project.
            create_api remote (server_create_body name source_lang ''es'' stamp)
              = Inr project_data
          \<and> build_dub_project project_data (given_source_file source_file_arg) now
              = Inr project
          \<and> py_subscript project_data ''targetLanguage''
              = Inr (JStr (target_language project))
          \<and> msg = created_text project))"
proof -
  have rep: "\<exists>project_data project.
            create_api remote (server_create_body name source_lang ''es'' stamp)
              = Inr project_data
          \<and> build_dub_project project_data (given_source_file source_file_arg) now
              = Inr project
          \<and> py_subscript project_data ''targetLanguage''
              = Inr (JStr (target_language project))
          \<and> msg = created_text project"
    if "fst (create_project_and_dub env remote name source_lang ''es''
               source_file_arg stamp now) = Inr msg" for msg
    using create_project_and_dub_text [OF that] build_dub_project_target by blast
  have cl: "create_project remote name source_lang ''es'' stamp
     = (create_api remote (client_create_body name source_lang ''es'' stamp),
        [PostCreateProject (client_create_body name source_lang ''es'' stamp)])"
    by (simp add: create_project_def Let_def)
  from language_fields_client [of name source_lang stamp]
    language_fields_server [of name source_lang stamp] cl
    create_project_and_dub_bodies [of env remote name source_lang "''es''"
      source_file_arg stamp now] rep
  show ?thesis by blast
qed

theorem create_request_carries_es_la_witness:
  "create_bodies (snd (create_project_and_dub all_files_env echo_remote ''Demo'' ''en'' ''es''
                         None ''20240131235959'' ''2024-01-31T23:59:59''))
     = [server_create_body ''Demo'' ''en'' ''es'' ''20240131235959'']
   \<and> (\<exists>project.
         fst (create_project_and_dub all_files_env echo_remote ''Demo'' ''en'' ''es''
                None ''20240131235959'' ''2024-01-31T23:59:59'') = Inr (created_text project)
       \<and> target_language project = ''es_la'')"
proof -
  let ?run = "create_project_and_dub all_files_env echo_remote ''Demo'' ''en'' ''es''
                None ''20240131235959'' ''2024-01-31T23:59:59''"
  note t = create_request_carries_es_la
             [where env = all_files_env and remote = echo_remote and name = "''Demo''"
                and source_lang = "''en''" and source_file_arg = None
                and stamp = "''20240131235959''" and now = "''2024-01-31T23:59:59''"]
  have ok: "\<not> isl (fst ?run)" by code_simp
  then obtain msg where msg: "fst ?run = Inr msg" by (cases "fst ?run") auto
  have resp: "create_api echo_remote (server_create_body ''Demo'' ''en'' ''es'' ''20240131235959'')
                = Inr (JObj [(''id'', JStr ''p1''), (''name'', JStr ''Demo''),
                             (''sourceLanguage'', JStr ''en''),
                             (''targetLanguage'', JStr ''es_la'')])"
    by code_simp
  from t msg obtain project_data project where
    p: "create_api echo_remote (server_create_body ''Demo'' ''en'' ''es'' ''20240131235959'')
          = Inr project_data"
       "py_subscript project_data ''targetLanguage'' = Inr (JStr (target_language project))"
       "msg = created_text project"
    by blast
  from p(1) resp have "project_data = JObj [(''id'', JStr ''p1''), (''name'', JStr ''Demo''),
                             (''sourceLanguage'', JStr ''en''),
                             (''targetLanguage'', JStr ''es_la'')]"
    by simp
  with p(2) have "target_language project = ''es_la''" by simp
  with msg p(3) t show ?thesis by blast
qed

text \<open>
  Claim C5 as stated fails in its second half: the language reported back is not the code
  that was asked for but the one in the response. A remote that answers a create request
  with the fields it was sent makes \<open>create_project_and_dub\<close> report \<open>es_la\<close> for a
  request for \<open>es\<close>, and \<open>create_project\<close> return a project whose \<open>targetLanguage\<close>
  is \<open>es_la\<close>.
\<close>

theorem reported_language_is_remote_answer_counterexample:
  "create_project_and_dub all_files_env echo_remote ''Demo'' ''en'' ''es'' None
     ''20240131235959'' ''2024-01-31T23:59:59''
     = (Inr (''Project created successfully:'' @ [CHR 0x0A] @
             ''ID: p1'' @ [CHR 0x0A] @
             ''Name: Demo'' @ [CHR 0x0A] @
             ''Source Language: en'' @ [CHR 0x0A] @
             ''Target Language: es_la'' @ [CHR 0x0A] @
             ''Status: created''),
        [PostCreateProject (server_create_body ''Demo'' ''en'' ''es'' ''20240131235959'')])
   \<and> create_project echo_remote ''Demo'' ''en'' ''es'' ''20240131235959''
     = (Inr (JObj [(''id'', JStr ''p1''), (''name'', JStr ''Demo''),
                   (''sourceLanguage'', JStr ''en''), (''targetLanguage'', JStr ''es_la'')]),
        [PostCreateProject (client_create_body ''Demo'' ''en'' ''es'' ''20240131235959'')])"
  by code_simp

section \<open>Properties of the search for the download URL\<close>

lemma find_append_cases:
  "find P (xs @ ys) = (case find P xs of Some x \<Rightarrow> Some x | None \<Rightarrow> find P ys)"
  by (induction xs) auto

lemma search_medias_find:
  "list_all is_dict ms \<Longrightarrow>
   search_medias ms = Inr (map_option presigned_url (find is_output_media ms))"
proof (induction ms)
  case Nil
  then show ?case by simp
next
  case (Cons media ms)
  then obtain kvs where m: "media = JObj kvs" by (cases media) auto
  from Cons have IH: "search_medias ms = Inr (map_option presigned_url (find is_output_media ms))"
    by simp
  have pu: "presigned_url (JObj kvs)
              = (case map_of kvs ''presignedURL'' of Some u \<Rightarrow> u | None \<Rightarrow> JNull)"
    by (simp add: presigned_url_def)
  have om: "is_output_media (JObj kvs)
              \<longleftrightarrow> map_of kvs ''operationType'' = Some (JStr ''OUTPUT'')
                  \<and> truthy (presigned_url (JObj kvs))"
    by (simp add: is_output_media_def)
  show ?case
    by (auto simp: m IH bind_exn_def om pu split: option.splits)
qed

lemma search_dubs_find:
  "list_all (\<lambda>d. wf_list_field d ''medias'') ds \<Longrightarrow>
   search_dubs ds
     = Inr (map_option presigned_url
              (find is_output_media (concat (map (\<lambda>d. list_field d ''medias'') ds))))"
proof (induction ds)
  case Nil
  then show ?case by simp
next
  case (Cons d ds)
  then have wf: "wf_list_field d ''medias''" by simp
  from Cons have IH: "search_dubs ds
     = Inr (map_option presigned_url
              (find is_output_media (concat (map (\<lambda>d. list_field d ''medias'') ds))))"
    by simp
  from wf obtain kvs where d: "d = JObj kvs"
    by (cases d) (auto simp: wf_list_field_def)
  from wf d have ms: "bind_exn (py_get d ''medias'' (JArr [])) py_iter
                        = Inr (list_field d ''medias'')
                      \<and> list_all is_dict (list_field d ''medias'')"
    by (auto simp: wf_list_field_def list_field_def bind_exn_def
        split: option.splits json.splits)
  then have it: "bind_exn (py_get d ''medias'' (JArr [])) py_iter = Inr (list_field d ''medias'')"
    and sm: "search_medias (list_field d ''medias'')
               = Inr (map_option presigned_url (find is_output_media (list_field d ''medias'')))"
    by (simp_all add: search_medias_find)
  have step: "search_dubs (d # ds)
       = (case find is_output_media (list_field d ''medias'') of
            Some m \<Rightarrow> Inr (Some (presigned_url m))
          | None \<Rightarrow> search_dubs ds)"
    using it sm
    by (auto simp: bind_exn_def split: sum.splits option.splits)
  show ?case
    by (simp only: step IH) (simp add: find_append_cases split: option.splits)
qed

lemma translation_dubs:
  assumes "wf_list_field t ''dub''"
  shows "bind_exn (py_get t ''dub'' (JArr [])) py_iter = Inr (list_field t ''dub'')"
    and "\<exists>dubs. py_get t ''dub'' (JArr []) = Inr dubs
               \<and> (truthy dubs \<longleftrightarrow> list_field t ''dub'' \<noteq> [])
               \<and> py_iter dubs = Inr (list_field t ''dub'')"
  using assms
  by (cases t; auto simp: wf_list_field_def list_field_def bind_exn_def
        split: option.splits json.splits)+

lemma client_search_translations_find:
  "list_all (\<lambda>t. wf_list_field t ''dub''
                 \<and> list_all (\<lambda>d. wf_list_field d ''medias'') (list_field t ''dub'')) ts \<Longrightarrow>
   client_search_translations ts
     = Inr (map_option presigned_url
              (find is_output_media
                 (concat (map (\<lambda>d. list_field d ''medias'')
                            (concat (map (\<lambda>t. list_field t ''dub'') ts))))))"
proof (induction ts)
  case Nil
  then show ?case by simp
next
  case (Cons t ts)
  then have wf: "wf_list_field t ''dub''"
    and wfd: "list_all (\<lambda>d. wf_list_field d ''medias'') (list_field t ''dub'')"
    by simp_all
  from Cons have IH: "client_search_translations ts
     = Inr (map_option presigned_url
              (find is_output_media
                 (concat (map (\<lambda>d. list_field d ''medias'')
                            (concat (map (\<lambda>t. list_field t ''dub'') ts))))))"
    by simp
  from translation_dubs(1) [OF wf] search_dubs_find [OF wfd]
  have step: "client_search_translations (t # ts)
       = (case find is_output_media
                 (concat (map (\<lambda>d. list_field d ''medias'') (list_field t ''dub''))) of
            Some m \<Rightarrow> Inr (Some (presigned_url m))
          | None \<Rightarrow> client_search_translations ts)"
    by (auto simp: bind_exn_def split: sum.splits option.splits)
  show ?case
    by (simp only: step IH) (simp add: find_append_cases split: option.splits)
qed

lemma server_search_translations_client:
  "list_all (\<lambda>t. wf_list_field t ''dub''
                 \<and> list_all (\<lambda>d. wf_list_field d ''medias'') (list_field t ''dub'')) ts \<Longrightarrow>
   server_search_translations ts = client_search_translations ts"
proof (induction ts)
  case Nil
  then show ?case by simp
next
  case (Cons t ts)
  then have wf: "wf_list_field t ''dub''" by simp
  from Cons have IH: "server_search_translations ts = client_search_translations ts" by simp
  from translation_dubs(2) [OF wf] obtain dubs where
    d: "py_get t ''dub'' (JArr []) = Inr dubs"
       "truthy dubs \<longleftrightarrow> list_field t ''dub'' \<noteq> []"
       "py_iter dubs = Inr (list_field t ''dub'')"
    by blast
  show ?case
  proof (cases "list_field t ''dub'' = []")
    case True
    with d IH show ?thesis by (simp add: bind_exn_def)
  next
    case False
    with d IH show ?thesis by (simp add: bind_exn_def)
  qed
qed

lemma payload_translations:
  assumes "wf_payload pd"
  shows "\<exists>ts. py_get pd ''translations'' (JArr []) = Inr ts
             \<and> (truthy ts \<longleftrightarrow> list_field pd ''translations'' \<noteq> [])
             \<and> py_iter ts = Inr (list_field pd ''translations'')"
  using assms
  by (cases pd; auto simp: wf_payload_def wf_list_field_def list_field_def
        split: option.splits json.splits)

lemma client_search_payload:
  assumes "wf_payload pd"
  shows "bind_exn (py_get pd ''translations'' (JArr []))
           (\<lambda>translations. bind_exn (py_iter translations) client_search_translations)
         = Inr (first_output_url pd)"
proof -
  from payload_translations [OF assms] obtain ts where
    ts: "py_get pd ''translations'' (JArr []) = Inr ts"
        "py_iter ts = Inr (list_field pd ''translations'')"
    by blast
  from assms have "list_all (\<lambda>t. wf_list_field t ''dub''
                 \<and> list_all (\<lambda>d. wf_list_field d ''medias'') (list_field t ''dub''))
              (list_field pd ''translations'')"
    by (simp add: wf_payload_def)
  from client_search_translations_find [OF this] ts show ?thesis
    by (simp add: bind_exn_def first_output_url_def all_medias_def)
qed

lemma server_search_payload:
  assumes "wf_payload pd"
  shows "bind_exn (py_get pd ''translations'' (JArr []))
           (\<lambda>translations.
              if \<not> truthy translations
              then Inl (SpeechlabMcpError ''No translations found in the project.'')
              else bind_exn (py_iter translations) server_search_translations)
         = (if list_field pd ''translations'' = []
            then Inl (SpeechlabMcpError ''No translations found in the project.'')
            else Inr (first_output_url pd))"
proof -
  from payload_translations [OF assms] obtain ts where
    ts: "py_get pd ''translations'' (JArr []) = Inr ts"
        "truthy ts \<longleftrightarrow> list_field pd ''translations'' \<noteq> []"
        "py_iter ts = Inr (list_field pd ''translations'')"
    by blast
  from assms have wf: "list_all (\<lambda>t. wf_list_field t ''dub''
                 \<and> list_all (\<lambda>d. wf_list_field d ''medias'') (list_field t ''dub''))
              (list_field pd ''translations'')"
    by (simp add: wf_payload_def)
  from client_search_translations_find [OF wf] server_search_translations_client [OF wf] ts
  show ?thesis
    by (simp add: bind_exn_def first_output_url_def all_medias_def)
qed

lemma download_from_fetched: "download_from remote url = (fetched remote url, [HttpGet url])"
  by (simp add: download_from_def fetched_def split: option.splits)

text \<open>
  The two fallbacks differ only in the class of the error for a response without
  \<open>"url"\<close>, and the handler of the tool gives both the same text.
\<close>

lemma server_fallback_wrapped:
  "snd (server_fallback remote pid) = [GetDownloadUrl pid]
   \<and> snd (client_fallback remote pid) = [GetDownloadUrl pid]
   \<and> wrap_errors prefix (fst (server_fallback remote pid))
       = wrap_errors prefix (fst (client_fallback remote pid))
   \<and> (\<forall>u. fst (server_fallback remote pid) = Inr u
            \<longleftrightarrow> fst (client_fallback remote pid) = Inr u)"
  by (auto simp: server_fallback_def client_fallback_def bind_exn_def wrap_errors_def
      split: sum.splits)

lemma download_result_fetch_wf:
  assumes "get_project remote pid = Inr pd" and "wf_payload pd"
  shows "download_result_fetch remote pid =
           (case first_output_url pd of
              Some url \<Rightarrow> (fetched remote url, [GetProject pid, HttpGet url])
            | None \<Rightarrow>
                (case fst (client_fallback remote pid) of
                   Inl e \<Rightarrow> (Inl e, [GetProject pid, GetDownloadUrl pid])
                 | Inr u \<Rightarrow> (fetched remote u, [GetProject pid, GetDownloadUrl pid, HttpGet u])))"
  using assms(1) client_search_payload [OF assms(2)]
  by (cases "client_fallback remote pid")
     (auto simp: download_result_fetch_def download_from_fetched client_fallback_def
        split: option.splits sum.splits)

lemma download_dubbing_result_try_wf:
  assumes "get_project remote pid = Inr pd" and "wf_payload pd"
    and "list_field pd ''translations'' \<noteq> []"
  shows "download_dubbing_result_try remote pid =
           (case first_output_url pd of
              Some url \<Rightarrow> (fetched remote url, [GetProject pid, HttpGet url])
            | None \<Rightarrow>
                (case fst (server_fallback remote pid) of
                   Inl e \<Rightarrow> (Inl e, [GetProject pid, GetDownloadUrl pid])
                 | Inr u \<Rightarrow> (fetched remote u, [GetProject pid, GetDownloadUrl pid, HttpGet u])))"
  using assms(1,3) server_search_payload [OF assms(2)]
  by (cases "server_fallback remote pid")
     (auto simp: download_dubbing_result_try_def download_from_fetched server_fallback_def
        split: option.splits sum.splits)

lemma download_dubbing_result_fetch_wrapped:
  assumes "get_project remote pid = Inr pd" and "wf_payload pd"
    and "list_field pd ''translations'' \<noteq> []"
  shows "download_dubbing_result_fetch remote pid
           = (wrap_errors ''Error downloading dubbing result: ''
                (fst (download_result_fetch remote pid)),
              snd (download_result_fetch remote pid))"
proof -
  let ?p = "''Error downloading dubbing result: ''"
  note c = download_result_fetch_wf [OF assms(1,2)]
  note s = download_dubbing_result_try_wf [OF assms]
  note fb = server_fallback_wrapped [of remote pid ?p]
  show ?thesis
  proof (cases "first_output_url pd")
    case (Some url)
    with c s show ?thesis
      by (simp add: download_dubbing_result_fetch_def wrap_errors_def split: sum.splits)
  next
    case None
    show ?thesis
    proof (cases "fst (client_fallback remote pid)")
      case (Inl e)
      with fb obtain e' where e': "fst (server_fallback remote pid) = Inl e'"
        by (cases "fst (server_fallback remote pid)") auto
      with fb Inl have "server_handlers ?p e' = server_handlers ?p e"
        by (simp add: wrap_errors_def)
      with None Inl e' c s show ?thesis
        by (simp add: download_dubbing_result_fetch_def wrap_errors_def)
    next
      case (Inr u)
      with fb have "fst (server_fallback remote pid) = Inr u" by blast
      with None Inr c s show ?thesis
        by (simp add: download_dubbing_result_fetch_def wrap_errors_def split: sum.splits)
    qed
  qed
qed

lemma download_dubbing_result_fetch_empty:
  assumes "get_project remote pid = Inr pd" and "wf_payload pd"
    and "list_field pd ''translations'' = []"
  shows "download_dubbing_result_fetch remote pid
           = (Inl (SpeechlabMcpError
                    ''Error downloading dubbing result: No translations found in the project.''),
              [GetProject pid])"
  using assms(1,3) server_search_payload [OF assms(2)]
  by (simp add: download_dubbing_result_fetch_def download_dubbing_result_try_def)

lemma client_fallback_dict:
  "get_download_url remote pid = Inr (JObj kvs) \<Longrightarrow>
   fst (client_fallback remote pid)
     = (case map_of kvs ''url'' of None \<Rightarrow> Inl (ValueError no_url_text) | Some u \<Rightarrow> Inr u)"
  by (auto simp: client_fallback_def bind_exn_def split: option.splits)

text \<open>
  Claim C6, as the code has it. Let the project request return a well-formed payload. In
  \<open>download_result\<close>: when the payload holds a media with operation type \<open>OUTPUT\<close> and a
  truthy presigned URL, the first such media in the order translations, dubs, medias gives
  the URL, and the download request is the next request made; when it holds none, the
  download-URL endpoint is asked next, an error of that request is passed on, a response
  dict without \<open>"url"\<close> raises \<open>ValueError\<close> with the text
  \<open>No download URL available. The dubbing may not be complete.\<close> and no download is
  tried, and a response dict with \<open>"url"\<close> has that entry downloaded. The tool
  \<open>download_dubbing_result\<close> raises \<open>No translations found in the project.\<close> when the
  payload has no translation, without asking the download-URL endpoint; on every other
  well-formed payload it makes the same requests as \<open>download_result\<close> and has the same
  result, with every error turned into the \<open>SpeechlabMcpError\<close> of its handlers.
\<close>

theorem download_url_resolution:
  assumes "get_project remote pid = Inr project_data"
    and "wf_payload project_data"
  shows "(\<forall>url. first_output_url project_data = Some url \<longrightarrow>
            download_result_fetch remote pid
              = (fetched remote url, [GetProject pid, HttpGet url]))
       \<and> (first_output_url project_data = None \<longrightarrow>
            (\<forall>e. get_download_url remote pid = Inl e \<longrightarrow>
               download_result_fetch remote pid
                 = (Inl e, [GetProject pid, GetDownloadUrl pid]))
          \<and> (\<forall>kvs. get_download_url remote pid = Inr (JObj kvs) \<longrightarrow>
               download_result_fetch remote pid
                 = (case map_of kvs ''url'' of
                      None \<Rightarrow> (Inl (ValueError no_url_text),
                                [GetProject pid, GetDownloadUrl pid])
                    | Some u \<Rightarrow> (fetched remote u,
                                  [GetProject pid, GetDownloadUrl pid, HttpGet u]))))
       \<and> download_dubbing_result_fetch remote pid
           = (if list_field project_data ''translations'' = []
              then (Inl (SpeechlabMcpError
                          ''Error downloading dubbing result: No translations found in the project.''),
                    [GetProject pid])
              else (wrap_errors ''Error downloading dubbing result: ''
                      (fst (download_result_fetch remote pid)),
                    snd (download_result_fetch remote pid)))"
proof -
  note c = download_result_fetch_wf [OF assms]
  have a: "download_result_fetch remote pid
              = (fetched remote url, [GetProject pid, HttpGet url])"
    if "first_output_url project_data = Some url" for url
    using c that by simp
  have b1: "download_result_fetch remote pid = (Inl e, [GetProject pid, GetDownloadUrl pid])"
    if "first_output_url project_data = None" and "get_download_url remote pid = Inl e" for e
    using c that by (simp add: client_fallback_def bind_exn_def)
  have b2: "download_result_fetch remote pid
                 = (case map_of kvs ''url'' of
                      None \<Rightarrow> (Inl (ValueError no_url_text),
                                [GetProject pid, GetDownloadUrl pid])
                    | Some u \<Rightarrow> (fetched remote u,
                                  [GetProject pid, GetDownloadUrl pid, HttpGet u]))"
    if "first_output_url project_data = None" and "get_download_url remote pid = Inr (JObj kvs)"
    for kvs
    using c that client_fallback_dict [OF that(2)] by (simp split: option.splits)
  have s: "download_dubbing_result_fetch remote pid
           = (if list_field project_data ''translations'' = []
              then (Inl (SpeechlabMcpError
                          ''Error downloading dubbing result: No translations found in the project.''),
                    [GetProject pid])
              else (wrap_errors ''Error downloading dubbing result: ''
                      (fst (download_result_fetch remote pid)),
                    snd (download_result_fetch remote pid)))"
    using download_dubbing_result_fetch_empty [OF assms]
      download_dubbing_result_fetch_wrapped [OF assms]
    by simp
  from a b1 b2 s show ?thesis by blast
qed

theorem download_url_resolution_witness:
  "download_result_fetch remote_two_translations ''p1''
     = (Inr (JStr ''https://out''), [GetProject ''p1'', HttpGet (JStr ''https://out'')])
   \<and> download_dubbing_result_fetch remote_two_translations ''p1''
     = (Inr (JStr ''https://out''), [GetProject ''p1'', HttpGet (JStr ''https://out'')])
   \<and> download_result_fetch remote_nothing ''p1''
     = (Inl (ValueError no_url_text), [GetProject ''p1'', GetDownloadUrl ''p1''])"
proof -
  have g: "get_project remote_two_translations ''p1'' = Inr two_translations"
    by (simp add: remote_two_translations_def)
  have wf: "wf_payload two_translations" by code_simp
  have f: "first_output_url two_translations = Some (JStr ''https://out'')" by code_simp
  have ft: "fetched remote_two_translations (JStr ''https://out'') = Inr (JStr ''https://out'')"
    by code_simp
  have ne: "list_field two_translations ''translations'' \<noteq> []" by code_simp
  note t = download_url_resolution [OF g wf]
  from t f ft have one: "download_result_fetch remote_two_translations ''p1''
     = (Inr (JStr ''https://out''), [GetProject ''p1'', HttpGet (JStr ''https://out'')])"
    by simp
  from t ne have "download_dubbing_result_fetch remote_two_translations ''p1''
           = (wrap_errors ''Error downloading dubbing result: ''
                (fst (download_result_fetch remote_two_translations ''p1'')),
              snd (download_result_fetch remote_two_translations ''p1''))"
    by simp
  with one have two: "download_dubbing_result_fetch remote_two_translations ''p1''
     = (Inr (JStr ''https://out''), [GetProject ''p1'', HttpGet (JStr ''https://out'')])"
    by (simp add: wrap_errors_def)
  have g3: "get_project remote_nothing ''p1'' = Inr (JObj [(''translations'', JArr [JObj []])])"
    by (simp add: remote_nothing_def)
  have wf3: "wf_payload (JObj [(''translations'', JArr [JObj []])])" by code_simp
  have f3: "first_output_url (JObj [(''translations'', JArr [JObj []])]) = None" by code_simp
  have u3: "get_download_url remote_nothing ''p1'' = Inr (JObj [])"
    by (simp add: remote_nothing_def)
  from download_url_resolution [OF g3 wf3] f3 u3
  have three: "download_result_fetch remote_nothing ''p1''
     = (Inl (ValueError no_url_text), [GetProject ''p1'', GetDownloadUrl ''p1''])"
    by simp
  from one two three show ?thesis by simp
qed

text \<open>
  Claim C6 as stated, for every payload and both functions, fails on two kinds of
  payload. On a payload without translations the tool \<open>download_dubbing_result\<close> raises
  at once and never asks the download-URL endpoint, which here holds a URL that
  \<open>download_result\<close> goes on to download. And on a payload that is not well formed, here
  a translation whose \<open>dub\<close> is \<open>null\<close>, \<open>download_result\<close> raises \<open>TypeError\<close> from
  its loop and asks no further endpoint, while the tool skips the translation. Besides, a
  response of the download-URL endpoint that has the key \<open>"url"\<close> counts as a URL
  whatever its value: for \<open>null\<close> both functions go on to the download request.
\<close>

theorem no_translations_no_fallback_counterexample:
  "first_output_url (JObj [(''translations'', JArr [])]) = None
   \<and> download_dubbing_result_fetch remote_no_translations ''p1''
     = (Inl (SpeechlabMcpError
              ''Error downloading dubbing result: No translations found in the project.''),
        [GetProject ''p1''])
   \<and> download_result_fetch remote_no_translations ''p1''
     = (Inr (JStr ''https://fallback''),
        [GetProject ''p1'', GetDownloadUrl ''p1'', HttpGet (JStr ''https://fallback'')])
   \<and> download_result_fetch remote_null_dub ''p1'' = (Inl TypeError, [GetProject ''p1''])
   \<and> download_dubbing_result_fetch remote_null_dub ''p1''
     = (Inr (JStr ''https://fallback''),
        [GetProject ''p1'', GetDownloadUrl ''p1'', HttpGet (JStr ''https://fallback'')])
   \<and> download_result_fetch remote_null_url ''p1''
     = (Inl TypeError, [GetProject ''p1'', GetDownloadUrl ''p1'', HttpGet JNull])
   \<and> download_dubbing_result_fetch remote_null_url ''p1''
     = (Inl (Wrapped ''Error downloading dubbing result: '' TypeError),
        [GetProject ''p1'', GetDownloadUrl ''p1'', HttpGet JNull])"
  by code_simp

end
